theory Spec2Isabelle
  imports Complex_Main
begin

section \<open>draw\_networkx\_edges with arrows: the data\<close>

text \<open>
  The program is the single function \<open>draw_networkx_edges\<close> of
  \<^verbatim>\<open>src/draw_networkx_edges_arrows.py\<close>. Its numbers are numpy doubles. They are
  modelled by the reals: addition, multiplication, comparison and \<open>numpy.sqrt\<close> are
  the exact operations, so the rounding of a result is outside the model. Three
  properties of the numbers are kept because the control flow of the function runs into
  them:
  \<^item> the test \<open>d == 0\<close> that skips an edge reads \<open>numpy.sqrt(float(dx**2 + dy**2))\<close>, and
    the sum of squares can be zero for end points that differ: the squares underflow in
    doubles (an offset of \<open>1e-200\<close>), and with integer positions they are computed in
    64-bit integers, which wrap (an offset of \<open>2 ^ 32\<close>). The value of
    \<open>float(dx**2 + dy**2)\<close> is a parameter of the model, of type \<open>sumsq\<close>;
    \<open>exact_sumsq\<close> is the sum on the reals and \<open>int64_sumsq\<close> the wrapping one.
  \<^item> numpy does not raise on a division by zero, it returns an infinity or a nan and
    goes on. Such a non-finite double is the value \<open>None\<close> of \<open>real option\<close>;
    the two divisions of the source that can meet a zero divisor (the head fraction
    \<open>p\<close> and the radicand of the arrow width) are written out that way.
  \<^item> \<open>numpy.cos\<close>, \<open>numpy.sin\<close> and \<open>numpy.arctan2\<close> are library functions whose
    results are not the exact ones (the double nearest to \<open>pi / 2\<close> is not
    \<open>pi / 2\<close>). They are parameters of the model, the record \<open>trig\<close>;
    \<open>exact_trig\<close> instantiates them with the functions on the reals.
\<close>

type_synonym point = "real \<times> real"
type_synonym segment = "point \<times> point"

datatype error =
    KeyError
  | ValueError string
  | TypeError
  | IndexError
  | ZeroDivisionError

record trig =
  tcos :: "real \<Rightarrow> real"
  tsin :: "real \<Rightarrow> real"
  tarctan2 :: "real \<Rightarrow> real \<Rightarrow> real"

text \<open>The angle of the point \<open>(x, y)\<close>, in the argument order of \<open>numpy.arctan2(y, x)\<close>.\<close>

definition arctan2 :: "real \<Rightarrow> real \<Rightarrow> real" where
  "arctan2 y x =
     (if 0 < x then arctan (y / x)
      else if x < 0 then (if 0 \<le> y then arctan (y / x) + pi else arctan (y / x) - pi)
      else if 0 < y then pi / 2
      else if y < 0 then - (pi / 2)
      else 0)"

definition exact_trig :: trig where
  "exact_trig = \<lparr>tcos = cos, tsin = sin, tarctan2 = arctan2\<rparr>"

text \<open>
  \<open>float(dx**2 + dy**2)\<close> as the library computes it from the two offsets. On 64-bit
  integers every operation wraps into the range from \<open>- 2 ^ 63\<close> to \<open>2 ^ 63 - 1\<close>.
  \<open>int64_sumsq\<close> is for positions that are integers, whose offsets it reads with
  the floor. Where the wrapped sum is negative, \<open>d\<close> is a nan in the code and a
  negative real in the model; the test \<open>d == 0\<close> fails in both.
\<close>

type_synonym sumsq = "real \<Rightarrow> real \<Rightarrow> real"

definition exact_sumsq :: sumsq where
  "exact_sumsq dx dy = dx\<^sup>2 + dy\<^sup>2"



section \<open>The first loop: shaft end points, slopes, angles and lengths\<close>

text \<open>
  Lines 233 to 302. The loop variables that outlive the loop are the four lists and
  \<open>p\<close>, which the second loop reads after the first has ended: it then holds the
  value computed for the last edge of \<open>edge_pos\<close>. For an edge of length zero that value
  is \<open>1.0 - 0.25 / 0.0\<close>, a non-finite double.
\<close>

record arrow_state =
  a_pos :: "segment list"
  orthoslope :: "real list"
  thetas :: "real list"
  lengths :: "real list"
  p :: "real option"

definition init_state :: arrow_state where
  "init_state = \<lparr>a_pos = [], orthoslope = [], thetas = [], lengths = [], p = Some (1 - 0.25)\<rparr>"

text \<open>Lines 297 to 300: the divisor of the orthogonal slope.\<close>

definition ortho_dy2 :: "real \<Rightarrow> real \<Rightarrow> real" where
  "ortho_dy2 y2 ya = (let dy2 = y2 - ya in if dy2 = 0 then 0.00000000000001 else dy2)"

text \<open>
  One iteration, lines 245 to 302. \<open>arrowheads == False\<close> is \<open>\<not> arrowheads\<close> for a
  Boolean flag. The assignment of the vertical branch (\<open>vertical\<close> below) is followed by
  an \<open>if dy == 0 ... else ...\<close> whose two arms both assign \<open>xa\<close> and \<open>ya\<close> again.
\<close>

definition edge_step ::
  "sumsq \<Rightarrow> trig \<Rightarrow> bool \<Rightarrow> arrow_state \<Rightarrow> segment \<Rightarrow> arrow_state" where
  "edge_step S T arrowheads st e =
     (case e of ((x1, y1), (x2, y2)) \<Rightarrow>
        let dx = x2 - x1;
            dy = y2 - y1;
            d = sqrt (S dx dy);
            pv = 1 - 0.25 / (2 * d / 100);
            st1 = st\<lparr>lengths := lengths st @ [d],
                     p := (if d = 0 then None else Some pv)\<rparr>
        in if d = 0 then st1
           else
             let vertical = (if dx = 0 then Some (x2, dy * pv + y1) else None);
                 (st2, xa, ya, x2', y2') =
                   (if dy = 0 then (st1, dx * pv + x1, y2, x2, y2)
                    else
                      let theta = tarctan2 T dy dx;
                          st2 = st1\<lparr>thetas := thetas st1 @ [theta]\<rparr>
                      in if \<not> arrowheads
                         then (st2,
                               pv * pv * d * tcos T theta + x1,
                               pv * pv * d * tsin T theta + y1,
                               1.05 * pv * pv * d * tcos T theta + x1,
                               1.05 * pv * pv * d * tsin T theta + y1)
                         else (st2,
                               pv * d * tcos T theta + x1,
                               pv * d * tsin T theta + y1,
                               x2, y2));
                 dx2 = x2' - xa
             in st2\<lparr>a_pos := a_pos st2 @ [((xa, ya), (x2', y2'))],
                    orthoslope := orthoslope st2 @ [(-1 * dx2) / ortho_dy2 y2' ya]\<rparr>)"

definition arrow_loop :: "sumsq \<Rightarrow> trig \<Rightarrow> bool \<Rightarrow> segment list \<Rightarrow> arrow_state" where
  "arrow_loop S T arrowheads edge_pos = foldl (edge_step S T arrowheads) init_state edge_pos"

text \<open>
  An edge whose source and destination coincide, and an edge that the test \<open>d == 0\<close> of
  line 259 skips.
\<close>

definition degenerate :: "segment \<Rightarrow> bool" where
  "degenerate e = (fst e = snd e)"

definition zero_length :: "sumsq \<Rightarrow> segment \<Rightarrow> bool" where
  "zero_length S e = (case e of ((x1, y1), (x2, y2)) \<Rightarrow> sqrt (S (x2 - x1) (y2 - y1)) = 0)"

section \<open>The second loop: the wing vertices of the triangles\<close>

text \<open>
  Python raises IndexError on a read past the end of a list; \<open>xs ! i\<close> there is
  unspecified in HOL. Every indexed read whose bound is not checked on the spot goes
  through \<open>nth_e\<close>.
\<close>

definition nth_e :: "'a list \<Rightarrow> nat \<Rightarrow> error + 'a" where
  "nth_e xs i = (if i < length xs then Inr (xs ! i) else Inl IndexError)"

text \<open>
  Sequencing of statements that may raise: the first exception ends the computation.
\<close>

definition bindE :: "error + 'a \<Rightarrow> ('a \<Rightarrow> error + 'b) \<Rightarrow> error + 'b" where
  "bindE m f = (case m of Inl e \<Rightarrow> Inl e | Inr x \<Rightarrow> f x)"

fun foldE :: "('s \<Rightarrow> 'a \<Rightarrow> error + 's) \<Rightarrow> 'a list \<Rightarrow> 's \<Rightarrow> error + 's" where
  "foldE f [] s = Inr s"
| "foldE f (x # xs) s = bindE (f s x) (foldE f xs)"

fun mapE :: "('a \<Rightarrow> error + 'b) \<Rightarrow> 'a list \<Rightarrow> error + 'b list" where
  "mapE f [] = Inr []"
| "mapE f (x # xs) = bindE (f x) (\<lambda>y. bindE (mapE f xs) (\<lambda>ys. Inr (y # ys)))"

text \<open>
  Lines 337 to 340. \<open>pl\<close> is the \<open>p\<close> the first loop left behind; \<open>i % len(dist)\<close>
  raises ZeroDivisionError on an empty list of widths. The list \<open>dist\<close> is \<open>dists\<close> here.
\<close>

definition dist_to_use :: "real option \<Rightarrow> real list \<Rightarrow> nat \<Rightarrow> error + real option" where
  "dist_to_use pl dists i =
     (if i + 1 > length dists
      then (if length dists = 0 then Inl ZeroDivisionError
            else Inr (map_option (\<lambda>pv. pv * dists ! (i mod length dists)) pl))
      else Inr (map_option (\<lambda>pv. pv * dists ! i) pl))"

text \<open>
  Lines 342 to 345. The quotient by \<open>1 + orthoslope[i]\<close> is non-finite when the slope
  is \<open>-1\<close> or when \<open>dist_to_use\<close> already is; neither branch of the test makes it finite
  again.
\<close>

definition arrow_width :: "real option \<Rightarrow> real \<Rightarrow> real option" where
  "arrow_width dtu s =
     (case dtu of
        None \<Rightarrow> None
      | Some d \<Rightarrow>
          if 1 + s = 0 then None
          else if d\<^sup>2 / (1 + s) < 0 then Some (0.5 * sqrt (-1 * d\<^sup>2 / (1 + s)))
          else Some (sqrt (d\<^sup>2 / (1 + s))))"

record wings =
  vertex1_x :: "real option list"
  vertex1_y :: "real option list"
  vertex2_x :: "real option list"
  vertex2_y :: "real option list"

definition init_wings :: wings where
  "init_wings = \<lparr>vertex1_x = [], vertex1_y = [], vertex2_x = [], vertex2_y = []\<rparr>"

text \<open>One iteration, lines 337 to 357.\<close>

definition wing_step :: "arrow_state \<Rightarrow> real list \<Rightarrow> wings \<Rightarrow> nat \<Rightarrow> error + wings" where
  "wing_step st dists w i =
     bindE (dist_to_use (p st) dists i) (\<lambda>dtu.
     bindE (nth_e (orthoslope st) i) (\<lambda>s.
     bindE (nth_e (a_pos st) i) (\<lambda>((xa, ya), tip).
       let aw = arrow_width dtu s;
           w1 = w\<lparr>vertex1_x := vertex1_x w @ [map_option (\<lambda>a. xa + a) aw],
                  vertex2_x := vertex2_x w @ [map_option (\<lambda>a. xa - a) aw]\<rparr>
       in bindE (nth_e (vertex1_x w1) i) (\<lambda>v1x.
          bindE (nth_e (vertex2_x w1) i) (\<lambda>v2x.
            Inr (w1\<lparr>vertex1_y := vertex1_y w1 @ [map_option (\<lambda>x. ya + 1 * s * (x - xa)) v1x],
                    vertex2_y := vertex2_y w1 @ [map_option (\<lambda>x. ya + 1 * s * (x - xa)) v2x]\<rparr>))))))"

definition wing_loop :: "arrow_state \<Rightarrow> real list \<Rightarrow> error + wings" where
  "wing_loop st dists = foldE (wing_step st dists) [0..<length (a_pos st)] init_wings"

section \<open>The triangles\<close>

type_synonym vertex = "real option \<times> real option"
type_synonym polygon = "vertex list"

text \<open>
  Lines 367 to 370, the element of the comprehension at index \<open>i\<close>: the two wings and
  the tip \<open>a_pos[i][1]\<close>, each moved by \<open>apos_on_edge * lengths[i]\<close> along \<open>thetas[i]\<close>.
\<close>

definition a_vert :: "trig \<Rightarrow> real \<Rightarrow> arrow_state \<Rightarrow> wings \<Rightarrow> nat \<Rightarrow> error + polygon" where
  "a_vert T apos st w i =
     bindE (nth_e (vertex1_x w) i) (\<lambda>v1x.
     bindE (nth_e (lengths st) i) (\<lambda>len.
     bindE (nth_e (thetas st) i) (\<lambda>theta.
     bindE (nth_e (vertex1_y w) i) (\<lambda>v1y.
     bindE (nth_e (vertex2_x w) i) (\<lambda>v2x.
     bindE (nth_e (vertex2_y w) i) (\<lambda>v2y.
     bindE (nth_e (a_pos st) i) (\<lambda>(shaft_end, (x2, y2)).
       let sx = apos * len * tcos T theta;
           sy = apos * len * tsin T theta
       in Inr [(map_option (\<lambda>v. v - sx) v1x, map_option (\<lambda>v. v - sy) v1y),
               (map_option (\<lambda>v. v - sx) v2x, map_option (\<lambda>v. v - sy) v2y),
               (Some (x2 - sx), Some (y2 - sy))])))))))"

definition a_verts :: "trig \<Rightarrow> real \<Rightarrow> arrow_state \<Rightarrow> wings \<Rightarrow> error + polygon list" where
  "a_verts T apos st w = mapE (a_vert T apos st w) [0..<length (a_pos st)]"

text \<open>
  Lines 306 to 370 in one piece: the widths doubled, the second loop, the
  comprehension.
\<close>

definition triangles :: "trig \<Rightarrow> real \<Rightarrow> real list \<Rightarrow> arrow_state \<Rightarrow> error + polygon list" where
  "triangles T apos lw st =
     bindE (wing_loop st (map (\<lambda>ww. 2 * ww) lw)) (a_verts T apos st)"

section \<open>The call: graph, arguments, colours, axes\<close>

text \<open>
  The model starts after the imports of lines 130 to 141, in an environment that has
  matplotlib and numpy. The graph is what the function asks of it: \<open>G.is_directed()\<close>
  and \<open>G.edges()\<close>. \<open>pos\<close> is a dictionary; a node without a position raises KeyError
  at line 153.
\<close>

record 'n graph =
  directed :: bool
  edges :: "('n \<times> 'n) list"

text \<open>
  The values \<open>edge_color\<close> can hold: a string, a number, or a sequence of such values.
  \<open>cb.is_string_like\<close>, \<open>cb.iterable\<close> and \<open>len\<close> on them.
\<close>

datatype pyval = Str string | Num real | Seq "pyval list"

fun is_string_like :: "pyval \<Rightarrow> bool" where
  "is_string_like (Str s) = True"
| "is_string_like (Num x) = False"
| "is_string_like (Seq vs) = False"

fun iterable :: "pyval \<Rightarrow> bool" where
  "iterable (Str s) = True"
| "iterable (Num x) = False"
| "iterable (Seq vs) = True"

fun len :: "pyval \<Rightarrow> error + nat" where
  "len (Str s) = Inr (length s)"
| "len (Num x) = Inl TypeError"
| "len (Seq vs) = Inr (length vs)"

text \<open>\<open>cb.iterable(c) and len(c) in (3, 4)\<close>, line 172.\<close>

definition rgb_like :: "pyval \<Rightarrow> bool" where
  "rgb_like c = (iterable c \<and> (len c = Inr 3 \<or> len c = Inr 4))"

text \<open>
  A colour of a collection: either what \<open>colorConverter.to_rgba(c, alpha)\<close> returns,
  kept symbolic because the conversion is matplotlib's, or a tuple the caller gave.
\<close>

datatype face = To_rgba pyval "real option" | Given pyval

text \<open>\<open>cb.iterable(width)\<close>, lines 155 to 158.\<close>

datatype width_arg = Width real | Widths "real list"

fun lw_of :: "width_arg \<Rightarrow> real list" where
  "lw_of (Width x) = [x]"
| "lw_of (Widths xs) = xs"

record 'n draw_args =
  edgelist :: "('n \<times> 'n) list option"
  width :: width_arg
  edge_color :: pyval
  style :: string
  alpha :: "real option"
  edge_cmap :: "string option"
  edge_vmin :: "real option"
  edge_vmax :: "real option"
  arrows :: bool
  arrowheads :: bool
  apos_on_edge :: real
  label :: "string option"

record line_collection =
  segments :: "segment list"
  colors :: "face list option"
  linewidths :: "real list"
  linestyle :: "string option"
  lc_alpha :: "real option"
  scalar_map :: "(pyval \<times> string option \<times> (real option \<times> real option) option) option"
  lc_zorder :: nat
  lc_label :: "string option"

record poly_collection =
  verts :: "polygon list"
  edgecolors :: string
  facecolors :: "face list option"
  pc_zorder :: nat
  pc_label :: "string option"

datatype collection = LineCollection line_collection | PolyCollection poly_collection

text \<open>
  The axes are the state of the call: the collections added to them, the corners passed
  to \<open>update_datalim\<close>, and the number of calls of \<open>autoscale_view\<close>.
\<close>

record axes =
  collections :: "collection list"
  datalims :: "(point \<times> point) list"
  autoscale_views :: nat

definition add_collection :: "collection \<Rightarrow> axes \<Rightarrow> axes" where
  "add_collection c ax = ax\<lparr>collections := collections ax @ [c]\<rparr>"

text \<open>Line 153.\<close>

definition lookup :: "('n \<rightharpoonup> point) \<Rightarrow> 'n \<Rightarrow> error + point" where
  "lookup pos n = (case pos n of None \<Rightarrow> Inl KeyError | Some q \<Rightarrow> Inr q)"

definition edge_positions :: "('n \<rightharpoonup> point) \<Rightarrow> ('n \<times> 'n) list \<Rightarrow> error + segment list" where
  "edge_positions pos el =
     mapE (\<lambda>e. bindE (lookup pos (fst e)) (\<lambda>src.
                bindE (lookup pos (snd e)) (\<lambda>dst. Inr (src, dst)))) el"

text \<open>Lines 160 to 184; \<open>m\<close> is \<open>len(edge_pos)\<close>.\<close>

definition per_edge_colors :: "pyval list \<Rightarrow> real option \<Rightarrow> error + face list option" where
  "per_edge_colors cs al =
     (if list_all is_string_like cs then Inr (Some (map (\<lambda>c. To_rgba c al) cs))
      else if list_all (\<lambda>c. \<not> is_string_like c) cs
      then (if list_all rgb_like cs then Inr (Some (map Given cs)) else Inr None)
      else Inl (ValueError ''edge_color must consist of either color names or numbers''))"

definition single_color :: "pyval \<Rightarrow> real option \<Rightarrow> error + face list option" where
  "single_color c al =
     (if is_string_like c then Inr (Some [To_rgba c al])
      else bindE (len c) (\<lambda>n.
        if n = 1 then Inr (Some [To_rgba c al])
        else Inl (ValueError ''edge_color must be a single color or list of exactly m colors where m is the number or edges'')))"

fun edge_colors_of :: "pyval \<Rightarrow> real option \<Rightarrow> nat \<Rightarrow> error + face list option" where
  "edge_colors_of (Seq cs) al m =
     (if length cs = m then per_edge_colors cs al else single_color (Seq cs) al)"
| "edge_colors_of c al m = single_color c al"

text \<open>
  Lines 186 to 216. The collection is added to the axes at line 198 and changed
  afterwards through the same reference; nothing in between raises, so the model
  builds the final value first.
\<close>

definition edge_collection_of ::
  "'n draw_args \<Rightarrow> segment list \<Rightarrow> face list option \<Rightarrow> line_collection" where
  "edge_collection_of a edge_pos ec =
     \<lparr>segments = edge_pos,
      colors = ec,
      linewidths = lw_of (width a),
      linestyle = Some (style a),
      lc_alpha = alpha a,
      scalar_map =
        (case ec of
           None \<Rightarrow> Some (edge_color a, edge_cmap a,
                          if edge_vmin a = None \<and> edge_vmax a = None
                          then None else Some (edge_vmin a, edge_vmax a))
         | Some cs \<Rightarrow> None),
      lc_zorder = 1,
      lc_label = label a\<rparr>"

text \<open>Lines 232 to 399: the arrows of a directed graph.\<close>

definition arrow_collection_of ::
  "sumsq \<Rightarrow> trig \<Rightarrow> 'n draw_args \<Rightarrow> face list option \<Rightarrow> segment list
     \<Rightarrow> error + collection" where
  "arrow_collection_of S T a ec edge_pos =
     (let st = arrow_loop S T (arrowheads a) edge_pos
      in if arrowheads a
         then bindE (triangles T (apos_on_edge a) (lw_of (width a)) st) (\<lambda>vs.
                Inr (PolyCollection
                       \<lparr>verts = vs, edgecolors = ''brown'', facecolors = ec,
                        pc_zorder = 1, pc_label = label a\<rparr>))
         else Inr (LineCollection
                     \<lparr>segments = a_pos st,
                      colors = ec,
                      linewidths = map (\<lambda>ww. 10 * ww) (lw_of (width a)),
                      linestyle = None,
                      lc_alpha = None,
                      scalar_map = None,
                      lc_zorder = 1,
                      lc_label = label a\<rparr>))"

text \<open>Lines 402 to 413: the corners of the padded bounding box of all end points.\<close>

definition corners :: "segment list \<Rightarrow> point \<times> point" where
  "corners edge_pos =
     (let xs = concat (map (\<lambda>(src, dst). [fst src, fst dst]) edge_pos);
          ys = concat (map (\<lambda>(src, dst). [snd src, snd dst]) edge_pos);
          minx = Min (set xs); maxx = Max (set xs);
          miny = Min (set ys); maxy = Max (set ys);
          w = maxx - minx; h = maxy - miny;
          padx = 0.05 * w; pady = 0.05 * h
      in ((minx - padx, miny - pady), (maxx + padx, maxy + pady)))"

definition update_view :: "segment list \<Rightarrow> axes \<Rightarrow> axes" where
  "update_view edge_pos ax =
     ax\<lparr>datalims := datalims ax @ [corners edge_pos],
        autoscale_views := Suc (autoscale_views ax)\<rparr>"

text \<open>
  Lines 227 to 416, once the edge collection exists: it is on the axes whatever
  happens next.
\<close>

definition draw_arrows_and_view ::
  "sumsq \<Rightarrow> trig \<Rightarrow> 'n graph \<Rightarrow> 'n draw_args \<Rightarrow> segment list \<Rightarrow> face list option \<Rightarrow> axes
     \<Rightarrow> (error + line_collection option) \<times> axes" where
  "draw_arrows_and_view S T G a edge_pos ec ax =
     (let edge_collection = edge_collection_of a edge_pos ec;
          ax1 = add_collection (LineCollection edge_collection) ax
      in if directed G \<and> arrows a
         then (case arrow_collection_of S T a ec edge_pos of
                 Inl e \<Rightarrow> (Inl e, ax1)
               | Inr c \<Rightarrow> (Inr (Some edge_collection),
                            update_view edge_pos (add_collection c ax1)))
         else (Inr (Some edge_collection), update_view edge_pos ax1))"

text \<open>
  The function, lines 146 to 416. The result is what it returns or raises, with the axes
  as the call leaves them.
\<close>

definition draw_networkx_edges ::
  "sumsq \<Rightarrow> trig \<Rightarrow> 'n graph \<Rightarrow> ('n \<rightharpoonup> point) \<Rightarrow> 'n draw_args \<Rightarrow> axes
     \<Rightarrow> (error + line_collection option) \<times> axes" where
  "draw_networkx_edges S T G pos a ax =
     (let el = (case edgelist a of None \<Rightarrow> edges G | Some l \<Rightarrow> l)
      in if el = [] then (Inr None, ax)
         else (case edge_positions pos el of
                 Inl e \<Rightarrow> (Inl e, ax)
               | Inr edge_pos \<Rightarrow>
                   (case edge_colors_of (edge_color a) (alpha a) (length edge_pos) of
                      Inl e \<Rightarrow> (Inl e, ax)
                    | Inr ec \<Rightarrow> draw_arrows_and_view S T G a edge_pos ec ax)))"

text \<open>The defaults of the signature, lines 32 to 46, and axes with nothing on them.\<close>

definition default_args :: "'n draw_args" where
  "default_args =
     \<lparr>edgelist = None, width = Width 1, edge_color = Str ''k'', style = ''solid'',
      alpha = None, edge_cmap = None, edge_vmin = None, edge_vmax = None,
      arrows = True, arrowheads = True, apos_on_edge = 0.15, label = None\<rparr>"

definition empty_axes :: axes where
  "empty_axes = \<lparr>collections = [], datalims = [], autoscale_views = 0\<rparr>"

section \<open>Auxiliary notions for the proofs\<close>

text \<open>
  The value of the local variable \<open>arrow_width\<close> in iteration \<open>i\<close> of the second loop,
  and the relation between a recorded slope and the segment it was computed from.
\<close>

definition wing_offset :: "arrow_state \<Rightarrow> real list \<Rightarrow> nat \<Rightarrow> real option" where
  "wing_offset st dists i =
     (case dist_to_use (p st) dists i of
        Inl e \<Rightarrow> None
      | Inr dtu \<Rightarrow> arrow_width dtu (orthoslope st ! i))"


definition slope_ok :: "real \<Rightarrow> segment \<Rightarrow> bool" where
  "slope_ok s seg =
     (case seg of ((xa, ya), (x2, y2)) \<Rightarrow>
        ortho_dy2 y2 ya \<noteq> 0 \<and> s * ortho_dy2 y2 ya = - (x2 - xa))"

section \<open>Evaluation lemmas\<close>

lemma exact_trig_sel:
  "tcos exact_trig = cos" "tsin exact_trig = sin" "tarctan2 exact_trig = arctan2"
  by (simp_all add: exact_trig_def)

lemma sqrt_2500: "sqrt 2500 = 50"
  by (rule real_sqrt_unique) simp_all

lemma sqrt_9: "sqrt 9 = 3"
  by (rule real_sqrt_unique) simp_all


lemma sqrt_25_9: "sqrt (25 / 9) = 5 / 3"
  by (rule real_sqrt_unique) (simp_all add: power2_eq_square)

lemma arctan2_40_30: "arctan2 40 30 = arctan (4 / 3)"
  by (simp add: arctan2_def)

lemma arctan2_50_0: "arctan2 50 0 = pi / 2"
  by (simp add: arctan2_def)

lemma cos_arctan_4_3: "cos (arctan (4 / 3)) = 3 / 5"
  by (simp add: cos_arctan power2_eq_square sqrt_25_9)

lemma sin_arctan_4_3: "sin (arctan (4 / 3)) = 4 / 5"
  by (simp add: sin_arctan power2_eq_square sqrt_25_9)


text \<open>The first loop on the edge from \<open>(0, 0)\<close> to \<open>(30, 40)\<close>, alone and after a loop edge.\<close>

lemma arrow_loop_30_40:
  "arrow_loop exact_sumsq exact_trig True [((0, 0), (30, 40))] =
     \<lparr>a_pos = [((45 / 2, 30), (30, 40))], orthoslope = [- (3 / 4)],
      thetas = [arctan (4 / 3)], lengths = [50], p = Some (3 / 4)\<rparr>"
  by (simp add: arrow_loop_def init_state_def edge_step_def Let_def exact_trig_sel exact_sumsq_def
        arctan2_40_30 cos_arctan_4_3 sin_arctan_4_3 sqrt_2500 ortho_dy2_def)

lemma arrow_loop_degenerate_30_40:
  "arrow_loop exact_sumsq exact_trig True [((0, 0), (0, 0)), ((0, 0), (30, 40))] =
     \<lparr>a_pos = [((45 / 2, 30), (30, 40))], orthoslope = [- (3 / 4)],
      thetas = [arctan (4 / 3)], lengths = [0, 50], p = Some (3 / 4)\<rparr>"
  by (simp add: arrow_loop_def init_state_def edge_step_def Let_def exact_trig_sel exact_sumsq_def
        arctan2_40_30 cos_arctan_4_3 sin_arctan_4_3 sqrt_2500 ortho_dy2_def)

lemma arrow_width_example: "arrow_width (Some (3 / 2)) (- (3 / 4)) = Some 3"
  by (simp add: arrow_width_def power2_eq_square sqrt_9)


lemma wing_loop_30_40:
  "wing_loop \<lparr>a_pos = [((45 / 2, 30), (30, 40))], orthoslope = [- (3 / 4)],
              thetas = [arctan (4 / 3)], lengths = ls, p = Some (3 / 4)\<rparr> [2] =
     Inr \<lparr>vertex1_x = [Some (51 / 2)], vertex1_y = [Some (111 / 4)],
          vertex2_x = [Some (39 / 2)], vertex2_y = [Some (129 / 4)]\<rparr>"
  by (simp add: wing_loop_def wing_step_def bindE_def nth_e_def dist_to_use_def
        arrow_width_example init_wings_def)





section \<open>Loops that may raise\<close>

lemma mapE_length: "mapE f xs = Inr ys \<Longrightarrow> length ys = length xs"
  by (induction xs arbitrary: ys) (auto simp: bindE_def split: sum.splits)



section \<open>The first loop\<close>

lemma zero_length_exact: "zero_length exact_sumsq e = degenerate e"
  by (cases e) (auto simp: zero_length_def exact_sumsq_def degenerate_def)


lemma edge_step_a_pos_length:
  "length (a_pos (edge_step S T ah st e)) = length (a_pos st) + (if zero_length S e then 0 else 1)"
  by (cases e)
    (auto simp: edge_step_def zero_length_def Let_def split: prod.splits)

lemma foldl_edge_step_a_pos_length:
  "length (a_pos (foldl (edge_step S T ah) st es)) + length (filter (zero_length S) es)
     = length (a_pos st) + length es"
  by (induction es arbitrary: st) (simp_all add: edge_step_a_pos_length)

lemma arrow_loop_a_pos_length:
  "length (a_pos (arrow_loop S T ah ep)) + length (filter (zero_length S) ep) = length ep"
  using foldl_edge_step_a_pos_length [of S T ah init_state ep]
  by (simp add: arrow_loop_def init_state_def)




lemma ortho_dy2_nonzero: "ortho_dy2 y2 ya \<noteq> 0"
  by (simp add: ortho_dy2_def Let_def)

lemma edge_step_slopes:
  "list_all2 slope_ok (orthoslope st) (a_pos st) \<Longrightarrow>
   list_all2 slope_ok (orthoslope (edge_step S T ah st e)) (a_pos (edge_step S T ah st e))"
  by (cases e)
    (auto simp: edge_step_def Let_def slope_ok_def ortho_dy2_nonzero
          split: prod.splits intro!: list_all2_appendI)

lemma foldl_edge_step_slopes:
  "list_all2 slope_ok (orthoslope st) (a_pos st) \<Longrightarrow>
   list_all2 slope_ok (orthoslope (foldl (edge_step S T ah) st es))
     (a_pos (foldl (edge_step S T ah) st es))"
  by (induction es arbitrary: st) (simp_all add: edge_step_slopes)

text \<open>
  C9. For every edge it does not skip, hence for every edge that is not degenerate,
  the first loop records one arrow segment and one orthogonal slope. The divisor of that slope, \<open>ortho_dy2\<close>, is never zero (a
  zero difference \<open>y2 - ya\<close> has been replaced by \<open>0.00000000000001\<close>), and the recorded
  slope is the quotient of \<open>- (x2 - xa)\<close> by it: the slope is always defined.
\<close>

theorem orthoslope_defined:
  "list_all2
     (\<lambda>s seg. case seg of ((xa, ya), (x2, y2)) \<Rightarrow>
        ortho_dy2 y2 ya \<noteq> 0 \<and> s * ortho_dy2 y2 ya = - (x2 - xa))
     (orthoslope (arrow_loop S T ah edge_pos)) (a_pos (arrow_loop S T ah edge_pos))"
  using foldl_edge_step_slopes [of init_state S T ah edge_pos]
  by (simp add: arrow_loop_def init_state_def slope_ok_def [abs_def])

text \<open>
  C1. The claim fails on a vertical edge. For the edge from \<open>(0, 0)\<close> to \<open>(0, 50)\<close>
  the test \<open>dy == 0\<close> is false, so the \<open>else\<close> arm runs: an angle is appended to
  \<open>thetas\<close> in either mode, and the values the vertical branch had assigned are
  overwritten by the trigonometric formula. In rectangular mode, with the exact
  trigonometric functions, the stored shaft end is \<open>(0, 225 / 8)\<close>, where the vertical
  formula \<open>(x2, dy * p + y1)\<close> gives \<open>(0, 75 / 2)\<close>.
\<close>

theorem vertical_edge_general_branch:
  "thetas (arrow_loop exact_sumsq T ah [((0, 0), (0, 50))]) = [tarctan2 T 50 0]
   \<and> a_pos (arrow_loop exact_sumsq exact_trig False [((0, 0), (0, 50))])
       = [((0, 225 / 8), (0, 945 / 32))]
   \<and> (0, 50 * (1 - 0.25 / (2 * 50 / 100)) + 0) = (0 :: real, 75 / 2 :: real)"
  by (simp add: arrow_loop_def init_state_def edge_step_def Let_def exact_trig_sel
        exact_sumsq_def arctan2_50_0 sqrt_2500)


section \<open>The second loop\<close>

lemma wing_step_xs:
  assumes "wing_step st dists w i = Inr w'"
  shows "vertex1_x w' = vertex1_x w @
           [map_option (\<lambda>a. fst (fst (a_pos st ! i)) + a) (wing_offset st dists i)]
       \<and> vertex2_x w' = vertex2_x w @
           [map_option (\<lambda>a. fst (fst (a_pos st ! i)) - a) (wing_offset st dists i)]"
  using assms
  by (auto simp: wing_step_def bindE_def nth_e_def wing_offset_def Let_def
           split: sum.splits if_splits prod.splits)

lemma foldE_wing_step_xs:
  "foldE (wing_step st dists) js w = Inr w' \<Longrightarrow>
   vertex1_x w' = vertex1_x w @
     map (\<lambda>i. map_option (\<lambda>a. fst (fst (a_pos st ! i)) + a) (wing_offset st dists i)) js
   \<and> vertex2_x w' = vertex2_x w @
     map (\<lambda>i. map_option (\<lambda>a. fst (fst (a_pos st ! i)) - a) (wing_offset st dists i)) js"
proof (induction js arbitrary: w)
  case Nil
  then show ?case by simp
next
  case (Cons j js)
  from Cons.prems obtain w1 where s1: "wing_step st dists w j = Inr w1"
    and r: "foldE (wing_step st dists) js w1 = Inr w'"
    by (auto simp: bindE_def split: sum.splits)
  from wing_step_xs [OF s1] Cons.IH [OF r] show ?case by simp
qed

lemma foldE_wing_step_dists:
  "foldE (wing_step st dists) js w = Inr w' \<Longrightarrow> js \<noteq> [] \<Longrightarrow> dists \<noteq> []"
  by (cases js)
    (auto simp: bindE_def wing_step_def dist_to_use_def split: sum.splits if_splits)

lemma dist_to_use_mod:
  "dists \<noteq> [] \<Longrightarrow>
   dist_to_use pl dists i = Inr (map_option (\<lambda>pv. pv * dists ! (i mod length dists)) pl)"
  by (simp add: dist_to_use_def)





text \<open>
  What the second loop computes. When it ends without an exception and the \<open>p\<close> left
  by the first loop is finite, the two wing vertices of the arrow at index \<open>i\<close> lie at
  \<open>xa + arrow_width\<close> and \<open>xa - arrow_width\<close>, where \<open>arrow_width\<close> is
  \<open>sqrt (d\<^sup>2 / (1 + slope))\<close> with the slope itself in the divisor, \<open>d\<close> is \<open>p\<close> times
  twice the line width at index \<open>i mod length lw\<close>, and \<open>slope\<close> is \<open>orthoslope[i]\<close>,
  provided the slope is not \<open>-1\<close>. When the quotient is negative, \<open>arrow_width\<close> is half
  the square root of its negation.
\<close>

lemma wing_offsets:
  assumes run: "wing_loop st (map (\<lambda>ww. 2 * ww) lw) = Inr w"
    and i: "i < length (a_pos st)"
    and fin: "p st = Some pv"
    and s: "1 + orthoslope st ! i \<noteq> 0"
  shows "vertex1_x w ! i = Some (fst (fst (a_pos st ! i)) +
            (let d = pv * (2 * lw ! (i mod length lw)); q = d\<^sup>2 / (1 + orthoslope st ! i)
             in if q < 0 then 0.5 * sqrt (- q) else sqrt q))
       \<and> vertex2_x w ! i = Some (fst (fst (a_pos st ! i)) -
            (let d = pv * (2 * lw ! (i mod length lw)); q = d\<^sup>2 / (1 + orthoslope st ! i)
             in if q < 0 then 0.5 * sqrt (- q) else sqrt q))"
proof -
  let ?dists = "map (\<lambda>ww. 2 * ww) lw"
  from run have f: "foldE (wing_step st ?dists) [0..<length (a_pos st)] init_wings = Inr w"
    by (simp add: wing_loop_def)
  from i have ne: "[0..<length (a_pos st)] \<noteq> []" by auto
  from foldE_wing_step_dists [OF f ne] have lw: "lw \<noteq> []" by simp
  then have m: "i mod length lw < length lw" by simp
  have off: "wing_offset st ?dists i =
      Some (let d = pv * (2 * lw ! (i mod length lw)); q = d\<^sup>2 / (1 + orthoslope st ! i)
            in if q < 0 then 0.5 * sqrt (- q) else sqrt q)"
    using lw m s by (simp add: wing_offset_def dist_to_use_mod fin arrow_width_def Let_def)
  from foldE_wing_step_xs [OF f] i off show ?thesis
    by (simp add: init_wings_def)
qed

text \<open>
  C2. The claim fails on the edge from \<open>(0, 0)\<close> to \<open>(30, 40)\<close> drawn with the default
  width 1. The shaft ends at \<open>(45 / 2, 30)\<close>, the orthogonal slope is \<open>- 3 / 4\<close>, \<open>p\<close> is
  \<open>3 / 4\<close> and \<open>dist_to_use\<close> is \<open>3 / 2\<close>. The code divides by \<open>1 + slope\<close> and moves
  the wings by 3 to either side, which puts them at distance \<open>15 / 4\<close> from the shaft
  end; \<open>sqrt (d\<^sup>2 / (1 + slope\<^sup>2))\<close> is \<open>6 / 5\<close>, which would put them at distance
  \<open>3 / 2\<close>, the \<open>dist_to_use\<close> of the distance formula.
\<close>

theorem arrow_width_slope_not_squared:
  "wing_loop (arrow_loop exact_sumsq exact_trig True [((0, 0), (30, 40))]) (map (\<lambda>ww. 2 * ww) [1])
     = Inr \<lparr>vertex1_x = [Some (45 / 2 + 3)], vertex1_y = [Some (111 / 4)],
            vertex2_x = [Some (45 / 2 - 3)], vertex2_y = [Some (129 / 4)]\<rparr>
   \<and> a_pos (arrow_loop exact_sumsq exact_trig True [((0, 0), (30, 40))]) = [((45 / 2, 30), (30, 40))]
   \<and> orthoslope (arrow_loop exact_sumsq exact_trig True [((0, 0), (30, 40))]) = [- (3 / 4)]
   \<and> dist_to_use (p (arrow_loop exact_sumsq exact_trig True [((0, 0), (30, 40))]))
        (map (\<lambda>ww. 2 * ww) [1]) 0 = Inr (Some (3 / 2))
   \<and> sqrt ((3 / 2)\<^sup>2 / (1 + (- (3 / 4))\<^sup>2)) = 6 / 5
   \<and> sqrt ((45 / 2 + 3 - 45 / 2)\<^sup>2 + (111 / 4 - 30)\<^sup>2) = 15 / 4
   \<and> sqrt ((45 / 2 + 6 / 5 - 45 / 2)\<^sup>2 + (- (3 / 4) * (6 / 5))\<^sup>2) = 3 / 2"
proof -
  have a: "sqrt ((3 / 2)\<^sup>2 / (1 + (- (3 / 4))\<^sup>2)) = 6 / 5"
    by (rule real_sqrt_unique) (simp_all add: power2_eq_square)
  have b: "sqrt ((45 / 2 + 3 - 45 / 2)\<^sup>2 + (111 / 4 - 30)\<^sup>2) = 15 / 4"
    by (rule real_sqrt_unique) (simp_all add: power2_eq_square)
  have c: "sqrt ((45 / 2 + 6 / 5 - 45 / 2)\<^sup>2 + (- (3 / 4) * (6 / 5))\<^sup>2) = 3 / 2"
    by (rule real_sqrt_unique) (simp_all add: power2_eq_square)
  have d: "wing_loop (arrow_loop exact_sumsq exact_trig True [((0, 0), (30, 40))]) (map (\<lambda>ww. 2 * ww) [1])
     = Inr \<lparr>vertex1_x = [Some (45 / 2 + 3)], vertex1_y = [Some (111 / 4)],
            vertex2_x = [Some (45 / 2 - 3)], vertex2_y = [Some (129 / 4)]\<rparr>"
    by (simp add: arrow_loop_30_40 wing_loop_30_40)
  have e: "dist_to_use (p (arrow_loop exact_sumsq exact_trig True [((0, 0), (30, 40))]))
        (map (\<lambda>ww. 2 * ww) [1]) 0 = Inr (Some (3 / 2))"
    by (simp add: arrow_loop_30_40 dist_to_use_def)
  from a b c d e show ?thesis
    by (simp only: arrow_loop_30_40 arrow_state.simps simp_thms)
qed

section \<open>The triangles: the shift along the edge\<close>

text \<open>
  C6. The claim fails when an edge of length zero comes first. \<open>lengths\<close> gets an entry
  for every edge, \<open>a_pos\<close> only for the edges that are not degenerate, and both are read
  at the same index. For the loop edge at \<open>(0, 0)\<close> followed by the edge from \<open>(0, 0)\<close>
  to \<open>(30, 40)\<close>, the triangle of the second edge is moved by \<open>apos_on_edge\<close> times the
  length 0 of the first: its tip stays at \<open>(30, 40)\<close>. The same edge alone is moved by
  \<open>0.15 * 50\<close> along its direction, that is by \<open>(9 / 2, 6)\<close>.
\<close>

theorem shift_by_wrong_length:
  "triangles exact_trig 0.15 [1]
      (arrow_loop exact_sumsq exact_trig True [((0, 0), (0, 0)), ((0, 0), (30, 40))])
     = Inr [[(Some (51 / 2), Some (111 / 4)), (Some (39 / 2), Some (129 / 4)),
             (Some 30, Some 40)]]
   \<and> triangles exact_trig 0.15 [1] (arrow_loop exact_sumsq exact_trig True [((0, 0), (30, 40))])
     = Inr [[(Some (51 / 2 - 9 / 2), Some (111 / 4 - 6)),
             (Some (39 / 2 - 9 / 2), Some (129 / 4 - 6)),
             (Some (30 - 9 / 2), Some (40 - 6))]]
   \<and> (0.15 * 50 * cos (arctan2 40 30), 0.15 * 50 * sin (arctan2 40 30)) = (9 / 2, 6)"
  by (simp add: triangles_def arrow_loop_degenerate_30_40 arrow_loop_30_40 wing_loop_30_40
        a_verts_def a_vert_def bindE_def nth_e_def exact_trig_sel
        arctan2_40_30 cos_arctan_4_3 sin_arctan_4_3)

section \<open>The call\<close>

lemma edge_positions_defined:
  "\<forall>e\<in>set el. fst e \<in> dom pos \<and> snd e \<in> dom pos \<Longrightarrow> \<exists>ep. edge_positions pos el = Inr ep"
  unfolding edge_positions_def
  by (induction el) (auto simp: bindE_def lookup_def split: sum.splits)

lemma edge_positions_length: "edge_positions pos el = Inr ep \<Longrightarrow> length ep = length el"
  unfolding edge_positions_def by (rule mapE_length)












text \<open>
  Rectangular mode never raises: the collection of the arrows holds the segments of
  \<open>a_pos\<close>, one for every edge of nonzero computed length.
\<close>

lemma rectangular_segments:
  "\<not> arrowheads a \<Longrightarrow>
   \<exists>lc. arrow_collection_of S T a ec edge_pos = Inr (LineCollection lc)
        \<and> segments lc = a_pos (arrow_loop S T False edge_pos)
        \<and> length (segments lc) + length (filter (zero_length S) edge_pos) = length edge_pos"
  using arrow_loop_a_pos_length [of S T False edge_pos]
  by (simp add: arrow_collection_of_def)

text \<open>
  C5. The claim fails in triangular mode on a horizontal edge. For the directed graph
  with the one edge from the node at \<open>(0, 0)\<close> to the node at \<open>(100, 0)\<close> and the default
  arguments, the first loop records an arrow segment and no angle, the comprehension of
  the triangles reads \<open>thetas[0]\<close>, and the call raises IndexError after the edge
  collection has been added to the axes: no polygon is produced.
\<close>

theorem horizontal_edge_index_error:
  "draw_networkx_edges exact_sumsq T \<lparr>directed = True, edges = [(0 :: nat, 1)]\<rparr>
      [0 \<mapsto> (0, 0), 1 \<mapsto> (100, 0)] default_args ax
     = (Inl IndexError,
        add_collection
          (LineCollection
             \<lparr>segments = [((0, 0), (100, 0))], colors = Some [To_rgba (Str ''k'') None],
              linewidths = [1], linestyle = Some ''solid'', lc_alpha = None,
              scalar_map = None, lc_zorder = 1, lc_label = None\<rparr>) ax)
   \<and> a_pos (arrow_loop exact_sumsq T True [((0, 0), (100, 0))]) = [((175 / 2, 0), (100, 0))]
   \<and> thetas (arrow_loop exact_sumsq T True [((0, 0), (100, 0))]) = []"
  by (simp add: draw_networkx_edges_def default_args_def edge_positions_def lookup_def
        bindE_def single_color_def draw_arrows_and_view_def edge_collection_of_def
        arrow_collection_of_def triangles_def exact_sumsq_def
        arrow_loop_def init_state_def edge_step_def Let_def ortho_dy2_def
        wing_loop_def wing_step_def nth_e_def dist_to_use_def arrow_width_def init_wings_def
        a_verts_def a_vert_def)

text \<open>
  C10. When the effective edge list (the argument \<open>edgelist\<close>, or the edges of the graph
  when it is omitted) is empty, the call returns \<open>None\<close> and the axes are as they were:
  no line collection, no arrow collection and no update of the view bounds.
\<close>

theorem empty_edgelist_returns_none:
  "(case edgelist a of None \<Rightarrow> edges G | Some l \<Rightarrow> l) = [] \<Longrightarrow>
   draw_networkx_edges S T G pos a ax = (Inr None, ax)"
  by (simp add: draw_networkx_edges_def)

text \<open>A graph without edges, and a graph with an edge drawn with an empty \<open>edgelist\<close>.\<close>

theorem empty_edgelist_returns_none_witness:
  "(case edgelist (default_args :: nat draw_args) of
      None \<Rightarrow> edges \<lparr>directed = True, edges = []\<rparr> | Some l \<Rightarrow> l) = []
   \<and> draw_networkx_edges exact_sumsq exact_trig \<lparr>directed = True, edges = []\<rparr>
        (Map.empty :: nat \<rightharpoonup> point) default_args empty_axes = (Inr None, empty_axes)
   \<and> (case edgelist ((default_args :: nat draw_args)\<lparr>edgelist := Some []\<rparr>) of
        None \<Rightarrow> edges \<lparr>directed = True, edges = [(0, 1)]\<rparr> | Some l \<Rightarrow> l) = []
   \<and> draw_networkx_edges exact_sumsq exact_trig \<lparr>directed = True, edges = [(0 :: nat, 1)]\<rparr>
        [0 \<mapsto> (0, 0), 1 \<mapsto> (100, 0)]
        (default_args\<lparr>edgelist := Some []\<rparr>) empty_axes = (Inr None, empty_axes)"
proof -
  have h1: "(case edgelist (default_args :: nat draw_args) of
      None \<Rightarrow> edges \<lparr>directed = True, edges = []\<rparr> | Some l \<Rightarrow> l) = []"
    by (simp add: default_args_def)
  have h2: "(case edgelist ((default_args :: nat draw_args)\<lparr>edgelist := Some []\<rparr>) of
      None \<Rightarrow> edges \<lparr>directed = True, edges = [(0, 1)]\<rparr> | Some l \<Rightarrow> l) = []"
    by simp
  from empty_edgelist_returns_none [OF h1] empty_edgelist_returns_none [OF h2] h1 h2
  show ?thesis by simp
qed

text \<open>
  C8, as the code has it. When the effective edge list is not empty and every end
  point of its edges has a position, a call with \<open>edge_color\<close> a list whose length is
  neither 1 nor the number of edges raises the ValueError of line 184, and the axes are
  as they were.
\<close>

theorem color_length_value_error:
  assumes ne: "(case edgelist a of None \<Rightarrow> edges G | Some l \<Rightarrow> l) \<noteq> []"
    and pos: "\<forall>e\<in>set (case edgelist a of None \<Rightarrow> edges G | Some l \<Rightarrow> l).
                fst e \<in> dom pos \<and> snd e \<in> dom pos"
    and col: "edge_color a = Seq cs"
    and l1: "length cs \<noteq> 1"
    and lm: "length cs \<noteq> length (case edgelist a of None \<Rightarrow> edges G | Some l \<Rightarrow> l)"
  shows "draw_networkx_edges S T G pos a ax =
     (Inl (ValueError ''edge_color must be a single color or list of exactly m colors where m is the number or edges''), ax)"
proof -
  let ?el = "case edgelist a of None \<Rightarrow> edges G | Some l \<Rightarrow> l"
  from edge_positions_defined [OF pos] obtain ep where ep: "edge_positions pos ?el = Inr ep" ..
  then have "length ep = length ?el"
    by (rule edge_positions_length)
  with ne ep col l1 lm show ?thesis
    by (simp add: draw_networkx_edges_def single_color_def bindE_def)
qed

text \<open>One edge between two placed nodes, and two numbers as \<open>edge_color\<close>.\<close>

theorem color_length_value_error_witness:
  "draw_networkx_edges exact_sumsq exact_trig \<lparr>directed = True, edges = [(0 :: nat, 1)]\<rparr>
      [0 \<mapsto> (0, 0), 1 \<mapsto> (100, 0)]
      (default_args\<lparr>edge_color := Seq [Num 0.1, Num 0.2]\<rparr>) empty_axes
     = (Inl (ValueError ''edge_color must be a single color or list of exactly m colors where m is the number or edges''), empty_axes)"
proof -
  let ?G = "\<lparr>directed = True, edges = [(0 :: nat, 1)]\<rparr>"
  let ?a = "(default_args :: nat draw_args)\<lparr>edge_color := Seq [Num 0.1, Num 0.2]\<rparr>"
  let ?pos = "[0 \<mapsto> (0, 0), 1 \<mapsto> (100, 0)] :: nat \<rightharpoonup> point"
  have ne: "(case edgelist ?a of None \<Rightarrow> edges ?G | Some l \<Rightarrow> l) \<noteq> []"
    by (simp add: default_args_def)
  have pos: "\<forall>e\<in>set (case edgelist ?a of None \<Rightarrow> edges ?G | Some l \<Rightarrow> l).
               fst e \<in> dom ?pos \<and> snd e \<in> dom ?pos"
    by (simp add: default_args_def)
  have col: "edge_color ?a = Seq [Num 0.1, Num 0.2]" by simp
  have l1: "length [Num 0.1, Num 0.2] \<noteq> 1" by simp
  have lm: "length [Num 0.1, Num 0.2]
              \<noteq> length (case edgelist ?a of None \<Rightarrow> edges ?G | Some l \<Rightarrow> l)"
    by (simp add: default_args_def)
  show ?thesis
    by (rule color_length_value_error [OF ne pos col l1 lm])
qed

text \<open>
  C8 as the claim states it fails on a graph without edges: the two numbers given as
  \<open>edge_color\<close> are neither one colour nor as many as the edges, of which there are
  none, and the call returns \<open>None\<close> at line 150 before it looks at the colours.
\<close>

theorem empty_edgelist_no_value_error:
  "draw_networkx_edges exact_sumsq exact_trig \<lparr>directed = True, edges = []\<rparr>
     (Map.empty :: nat \<rightharpoonup> point)
     (default_args\<lparr>edge_color := Seq [Num 0.1, Num 0.2]\<rparr>) empty_axes = (Inr None, empty_axes)
   \<and> length [Num 0.1, Num 0.2] \<noteq> 1
   \<and> length [Num 0.1, Num 0.2]
        \<noteq> length (edges \<lparr>directed = True, edges = ([] :: (nat \<times> nat) list)\<rparr>)"
  by (simp add: draw_networkx_edges_def default_args_def)

end
